theory Spec2Isabelle
  imports Main
begin

section \<open>Strings\<close>

text \<open>
  JavaScript strings are modelled as \<open>string\<close> (lists of 8-bit characters). The
  Vietnamese message texts of the source are written without their diacritics, so that
  the theory stays ASCII; the ASCII fragments the code inspects (\<open>API\<close>,
  \<open>API GitHub\<close>, the prefix up to the exclamation mark) are kept letter for letter.
\<close>

text \<open>\<open>s.startsWith(t)\<close>\<close>

fun startsWith :: "string \<Rightarrow> string \<Rightarrow> bool" where
  "startsWith s [] = True"
| "startsWith [] (c # t) = False"
| "startsWith (a # s) (c # t) = (a = c \<and> startsWith s t)"

text \<open>\<open>s.includes(t)\<close>\<close>

fun includes_str :: "string \<Rightarrow> string \<Rightarrow> bool" where
  "includes_str [] t = (t = [])"
| "includes_str (a # s) t = (startsWith (a # s) t \<or> includes_str s t)"

text \<open>The decimal digits of a number, as a template literal prints it.\<close>

definition digit :: "nat \<Rightarrow> char" where
  "digit n = ''0123456789'' ! n"

fun showNat :: "nat \<Rightarrow> string" where
  "showNat n = (if n < 10 then [digit n] else showNat (n div 10) @ [digit (n mod 10)])"

declare showNat.simps [simp del]

text \<open>A \<open>string | null\<close> value is truthy when it is a non-empty string.\<close>

fun truthy :: "string option \<Rightarrow> bool" where
  "truthy None = False"
| "truthy (Some s) = (s \<noteq> [])"

definition apos :: char where
  "apos = CHR 0x27"

section \<open>Data model (types.ts)\<close>

text \<open>
  A JavaScript object is more than the values of its members: it also keeps the order
  in which the members were created, and \<open>JSON.stringify\<close> writes them in that
  order. The records below therefore carry the order next to the values: \<open>keyOrder\<close>
  for the two members of a content object, \<open>members\<close> for the keys a source object
  owns, first created first.
\<close>

datatype KeyOrder = MimeTypeFirst | DataFirst

record Content =
  mimeType :: string
  data :: string
  keyOrder :: KeyOrder

datatype Member = M_id | M_title | M_fileName | M_content

record Source =
  id_Source :: string
  title :: string
  fileName :: "string option"
  content :: Content
  members :: "Member list"

text \<open>
  A value of the \<open>Source\<close> interface owns the three required keys, and the key
  \<open>fileName\<close> whenever that member is defined; no key twice.
\<close>

definition wellFormed :: "Source \<Rightarrow> bool" where
  "wellFormed s =
     (distinct (members s) \<and> M_id \<in> set (members s) \<and> M_title \<in> set (members s)
      \<and> M_content \<in> set (members s)
      \<and> (fileName s = None \<or> M_fileName \<in> set (members s)))"

text \<open>Deep structural equality of two sources: the same value for every member,
  whatever the order of the keys.\<close>

definition structurallyEqual :: "Source \<Rightarrow> Source \<Rightarrow> bool" where
  "structurallyEqual s t =
     (id_Source s = id_Source t \<and> title s = title t \<and> fileName s = fileName t
      \<and> mimeType (content s) = mimeType (content t)
      \<and> data (content s) = data (content t))"

record Citation =
  sourceId :: string
  sourceTitle :: string
  quote :: string

text \<open>What the answering service returns for a citation, before the title is attached.\<close>

record RawCitation =
  sourceId_raw :: string
  quote_raw :: string

datatype Role = User | Model

record ChatMessage =
  id_ChatMessage :: string
  role :: Role
  text_ChatMessage :: string
  citations :: "Citation list option"

datatype ToastType = ToastSuccess | ToastError | ToastInfo

record ToastMessage =
  id_Toast :: nat
  message_Toast :: string
  type_Toast :: ToastType

section \<open>storageService.ts\<close>

text \<open>
  A thrown value: the custom \<open>GistNotFoundError\<close> class or a plain \<open>Error\<close>
  (which also stands for the \<open>TypeError\<close> and \<open>SyntaxError\<close> the runtime throws),
  each with its message.
\<close>

datatype exn = GistNotFoundError string | Error string

fun message :: "exn \<Rightarrow> string" where
  "message (GistNotFoundError m) = m"
| "message (Error m) = m"

definition GITHUB_API_BASE_URL :: string where
  "GITHUB_API_BASE_URL = ''https://api.github.com/gists''"

definition FILENAME :: string where
  "FILENAME = ''sources.json''"

record AdminConfig =
  githubToken :: string
  savedAt :: "string option"

definition DEFAULT_SOURCES :: "Source list" where
  "DEFAULT_SOURCES =
    [ \<lparr> id_Source = ''default-1'',
        title = ''Gioi thieu Tin Hoc Sao Viet'',
        fileName = Some ''gioi-thieu.txt'',
        content = \<lparr> mimeType = ''text/plain'',
          data = ''Trung Tam Tin Hoc Sao Viet la mot trong nhung don vi hang dau trong linh vuc dao tao tin hoc van phong va ung dung cong nghe thong tin tai Viet Nam. Chung toi cung cap cac khoa hoc da dang tu co ban den nang cao, bao gom Microsoft Word, Excel, PowerPoint, va cac khoa hoc chuyen sau ve phan tich du lieu. Su menh cua chung toi la trang bi cho hoc vien nhung ky nang can thiet de thanh cong trong moi truong lam viec hien dai.'',
          keyOrder = MimeTypeFirst \<rparr>,
        members = [M_id, M_title, M_fileName, M_content] \<rparr>,
      \<lparr> id_Source = ''default-2'',
        title = ''Cam ket chat luong'',
        fileName = Some ''cam-ket.txt'',
        content = \<lparr> mimeType = ''text/plain'',
          data = ''Tai Tin Hoc Sao Viet, chat luong giang day la uu tien so mot. Doi ngu giang vien cua chung toi la nhung chuyen gia co nhieu nam kinh nghiem thuc te va kha nang su pham xuat sac. Chung toi cam ket 100% hoc vien sau khi hoan thanh khoa hoc se nam vung kien thuc va tu tin ap dung vao cong viec. Moi truong hoc tap hien dai, than thien va luon ho tro hoc vien 24/7.'',
          keyOrder = MimeTypeFirst \<rparr>,
        members = [M_id, M_title, M_fileName, M_content] \<rparr> ]"

subsection \<open>The network and the platform\<close>

text \<open>
  The body of a response, as \<open>response.json()\<close> delivers it: the call (or the first
  property access on its result) throws, or the result is a document whose \<open>files\<close>
  member is absent or maps file names to files. A file has a \<open>content\<close> member,
  a text, which may be absent.
\<close>

record GistFile =
  content_GistFile :: "string option"

datatype ResponseJson =
    JsonThrows string
  | JsonData "(string \<times> GistFile) list option"

text \<open>
  What \<open>JSON.parse\<close> makes of a text: it throws a \<open>SyntaxError\<close>, or it returns a
  value. An array is taken to hold sources, as the type assertion of the code does;
  the inside of other objects is not looked at.
\<close>

datatype JsonValue =
    JsonNull
  | JsonBool bool
  | JsonNumber int
  | JsonString string
  | JsonObject
  | JsonArray "Source list"

datatype ParseResult = SyntaxError string | Parsed JsonValue

text \<open>\<open>Array.isArray(v)\<close>\<close>

fun Array_isArray :: "JsonValue \<Rightarrow> bool" where
  "Array_isArray (JsonArray xs) = True"
| "Array_isArray v = False"

text \<open>The text \<open>JSON.parse\<close> receives for the content of a file: an absent content
  is the value \<open>undefined\<close>, which is converted to its name.\<close>

fun fileText :: "GistFile \<Rightarrow> string" where
  "fileText file = (case content_GistFile file of None \<Rightarrow> ''undefined'' | Some c \<Rightarrow> c)"

record Response =
  status :: nat
  etagHeader :: "string option"
  json :: ResponseJson
  errorMessage :: "string option"

text \<open>\<open>response.ok\<close>\<close>

definition ok :: "Response \<Rightarrow> bool" where
  "ok r = (200 \<le> status r \<and> status r \<le> 299)"

datatype FetchResult = FetchThrows string | FetchResponds Response

record Request =
  url :: string
  httpMethod :: string
  headers :: "(string \<times> string) list"
  body :: "Source list option"

text \<open>
  The world outside the repository: how the remote store answers a request, the
  \<open>JSON.parse\<close> of the platform, and the requests issued so far. The parser is a
  function of the text alone; nothing is assumed of it, so every property below holds
  for the real one. The PATCH body is kept as the collection it carries.
\<close>

record World =
  respond :: "Request \<Rightarrow> FetchResult"
  JSON_parse :: "string \<Rightarrow> ParseResult"
  sent :: "Request list"

definition fetch :: "Request \<Rightarrow> World \<Rightarrow> FetchResult \<times> World" where
  "fetch rq w = (respond w rq, w\<lparr>sent := sent w @ [rq]\<rparr>)"

subsection \<open>getSources\<close>

record SourcesResult =
  status_res :: nat
  sources_res :: "Source list option"
  etag_res :: "string option"

definition gistNotFoundMessage :: "string \<Rightarrow> string" where
  "gistNotFoundMessage gistId =
     ''Khong tim thay Gist voi ID '' @ [apos] @ gistId @ [apos]
       @ ''. Vui long kiem tra lai Gist ID trong cau hinh cua ban.''"

definition rateLimitMessage :: string where
  "rateLimitMessage = ''Da dat den gioi han truy cap API GitHub. Vui long thu lai sau.''"

definition apiErrorMessage :: "nat \<Rightarrow> string" where
  "apiErrorMessage st = ''Loi API GitHub! status: '' @ showNat st"

definition networkErrorMessage :: string where
  "networkErrorMessage = ''Mot loi mang da xay ra khi lay nguon.''"

text \<open>The result of a fallback branch.\<close>

definition defaultResult :: "string option \<Rightarrow> SourcesResult" where
  "defaultResult newEtag =
     \<lparr> status_res = 200, sources_res = Some DEFAULT_SOURCES, etag_res = newEtag \<rparr>"

text \<open>The body of the \<open>try\<close> block, once \<open>fetch\<close> has settled; \<open>parse\<close> is
  \<open>JSON.parse\<close>.\<close>

definition getSources_try ::
  "(string \<Rightarrow> ParseResult) \<Rightarrow> string \<Rightarrow> string option \<Rightarrow> FetchResult \<Rightarrow> exn + SourcesResult" where
  "getSources_try parse gistId etag fr =
     (case fr of
        FetchThrows m \<Rightarrow> Inl (Error m)
      | FetchResponds response \<Rightarrow>
          if status response = 304 then
            Inr \<lparr> status_res = 304, sources_res = None, etag_res = etag \<rparr>
          else if \<not> ok response then
            (if status response = 404 then Inl (GistNotFoundError (gistNotFoundMessage gistId))
             else if status response = 403 then Inl (Error rateLimitMessage)
             else Inl (Error (apiErrorMessage (status response))))
          else
            (let newEtag = etagHeader response in
             case json response of
               JsonThrows m \<Rightarrow> Inl (Error m)
             | JsonData None \<Rightarrow> Inr (defaultResult newEtag)
             | JsonData (Some files) \<Rightarrow>
                 (case map_of files FILENAME of
                    None \<Rightarrow> Inr (defaultResult newEtag)
                  | Some file \<Rightarrow>
                      (case parse (fileText file) of
                         SyntaxError m \<Rightarrow> Inl (Error m)
                       | Parsed v \<Rightarrow>
                           if \<not> Array_isArray v then Inr (defaultResult newEtag)
                           else
                             (case v of
                                JsonArray srcs \<Rightarrow>
                                  Inr \<lparr> status_res = 200,
                                        sources_res = Some (if length srcs > 0 then srcs
                                                            else DEFAULT_SOURCES),
                                        etag_res = newEtag \<rparr>
                              | _ \<Rightarrow> Inr (defaultResult newEtag))))))"

text \<open>The \<open>catch\<close> block: the two kinds of error the \<open>try\<close> block throws itself are
  re-thrown, everything else becomes the network error.\<close>

definition getSources_catch :: "exn \<Rightarrow> exn" where
  "getSources_catch err =
     (case err of
        GistNotFoundError m \<Rightarrow> err
      | Error m \<Rightarrow> if includes_str m ''API GitHub'' then err else Error networkErrorMessage)"

text \<open>The GET request that \<open>getSources\<close> builds: the conditional header is sent
  only for a truthy tag.\<close>

definition getRequest :: "string \<Rightarrow> string option \<Rightarrow> Request" where
  "getRequest gistId etag =
     \<lparr> url = GITHUB_API_BASE_URL @ ''/'' @ gistId, httpMethod = ''GET'',
       headers = [(''Accept'', ''application/vnd.github.v3+json'')]
                   @ (case etag of
                        None \<Rightarrow> []
                      | Some e \<Rightarrow> if e = [] then [] else [(''If-None-Match'', e)]),
       body = None \<rparr>"

definition getSources :: "string \<Rightarrow> string option \<Rightarrow> World \<Rightarrow> (exn + SourcesResult) \<times> World" where
  "getSources gistId etag w =
     (if gistId = [] then
        (Inr \<lparr> status_res = 200, sources_res = Some DEFAULT_SOURCES, etag_res = None \<rparr>, w)
      else
        (let (fr, w') = fetch (getRequest gistId etag) w
         in (case getSources_try (JSON_parse w) gistId etag fr of
               Inl err \<Rightarrow> Inl (getSources_catch err)
             | Inr res \<Rightarrow> Inr res,
             w')))"

subsection \<open>saveSources\<close>

definition configRequiredMessage :: string where
  "configRequiredMessage =
     ''Cau hinh luu tru (Gist ID va GitHub Token) la bat buoc de luu cac nguon.''"

definition saveFailedMessage :: string where
  "saveFailedMessage = ''Khong the luu cac nguon.''"

definition patchRequest :: "Source list \<Rightarrow> string \<Rightarrow> string \<Rightarrow> Request" where
  "patchRequest srcs gistId token =
     \<lparr> url = GITHUB_API_BASE_URL @ ''/'' @ gistId, httpMethod = ''PATCH'',
       headers = [(''Content-Type'', ''application/json''),
                  (''Authorization'', ''token '' @ token),
                  (''Accept'', ''application/vnd.github.v3+json'')],
       body = Some srcs \<rparr>"

text \<open>The \<open>message\<close> member of an error body, as a template literal prints it.\<close>

fun showMessage :: "string option \<Rightarrow> string" where
  "showMessage None = ''undefined''"
| "showMessage (Some m) = m"

definition saveSources_try :: "FetchResult \<Rightarrow> exn + string option" where
  "saveSources_try fr =
     (case fr of
        FetchThrows m \<Rightarrow> Inl (Error m)
      | FetchResponds response \<Rightarrow>
          if \<not> ok response then
            (case json response of
               JsonThrows m \<Rightarrow> Inl (Error m)
             | JsonData files \<Rightarrow> Inl (Error (apiErrorMessage (status response) @ '', message: ''
                                  @ showMessage (errorMessage response))))
          else Inr (etagHeader response))"

definition saveSources_catch :: "exn \<Rightarrow> exn" where
  "saveSources_catch err =
     (if startsWith (message err) ''Loi API GitHub!'' then err else Error saveFailedMessage)"

definition saveSources :: "Source list \<Rightarrow> string \<Rightarrow> string \<Rightarrow> World \<Rightarrow> (exn + string option) \<times> World" where
  "saveSources srcs gistId token w =
     (if gistId = [] \<or> token = [] then (Inl (Error configRequiredMessage), w)
      else
        (let (fr, w') = fetch (patchRequest srcs gistId token) w
         in (case saveSources_try fr of
               Inl err \<Rightarrow> Inl (saveSources_catch err)
             | Inr newEtag \<Rightarrow> Inr newEtag,
             w')))"

section \<open>JSON.stringify of a source collection\<close>

text \<open>
  The serialisation the dirty check compares. Strings are quoted as the JSON grammar
  requires: the quotation mark, the backslash and the control characters are escaped,
  every other character stands for itself. An object writes the members it owns in the
  order of their creation, and leaves out a member whose value is undefined; an array
  writes its elements between brackets, separated by commas. Characters are 8-bit, so
  the escapes of lone surrogates do not arise.
\<close>

definition dq :: char where
  "dq = CHR 0x22"

definition bs :: char where
  "bs = CHR 0x5C"

definition hexdigit :: "nat \<Rightarrow> char" where
  "hexdigit n = ''0123456789abcdef'' ! n"

definition escapeChar :: "char \<Rightarrow> string" where
  "escapeChar c =
     (if c = CHR 0x08 then [bs, CHR ''b'']
      else if c = CHR 0x09 then [bs, CHR ''t'']
      else if c = CHR 0x0A then [bs, CHR ''n'']
      else if c = CHR 0x0C then [bs, CHR ''f'']
      else if c = CHR 0x0D then [bs, CHR ''r'']
      else if c = dq then [bs, dq]
      else if c = bs then [bs, bs]
      else if (of_char c :: nat) < 32 then
        [bs, CHR ''u'', CHR ''0'', CHR ''0'',
         hexdigit (of_char c div 16), hexdigit (of_char c mod 16)]
      else [c])"

definition QuoteJSONString :: "string \<Rightarrow> string" where
  "QuoteJSONString s = [dq] @ concat (map escapeChar s) @ [dq]"

text \<open>\<open>parts.join(sep)\<close>\<close>

fun join :: "string list \<Rightarrow> string \<Rightarrow> string" where
  "join [] sep = []"
| "join [x] sep = x"
| "join (x # y # zs) sep = x @ sep @ join (y # zs) sep"

definition SerializeContent :: "Content \<Rightarrow> string" where
  \<open>SerializeContent c =
     (case keyOrder c of
        MimeTypeFirst \<Rightarrow>
          ''{"mimeType":'' @ QuoteJSONString (mimeType c)
            @ '',"data":'' @ QuoteJSONString (data c) @ ''}''
      | DataFirst \<Rightarrow>
          ''{"data":'' @ QuoteJSONString (data c)
            @ '',"mimeType":'' @ QuoteJSONString (mimeType c) @ ''}'')\<close>

text \<open>A member that is written: its key with its defined value.\<close>

datatype Property =
    P_id string
  | P_title string
  | P_fileName string
  | P_content Content

fun property :: "Source \<Rightarrow> Member \<Rightarrow> Property option" where
  "property s M_id = Some (P_id (id_Source s))"
| "property s M_title = Some (P_title (title s))"
| "property s M_fileName = (case fileName s of None \<Rightarrow> None | Some f \<Rightarrow> Some (P_fileName f))"
| "property s M_content = Some (P_content (content s))"

text \<open>The members a source writes, in the order of its keys.\<close>

definition properties :: "Source \<Rightarrow> Property list" where
  "properties s = List.map_filter (property s) (members s)"

fun key :: "Property \<Rightarrow> Member" where
  "key (P_id v) = M_id"
| "key (P_title v) = M_title"
| "key (P_fileName v) = M_fileName"
| "key (P_content v) = M_content"

text \<open>Two sources have the same layout when they write the same keys in the same
  order, in the object and in its content.\<close>

definition sameLayout :: "Source \<Rightarrow> Source \<Rightarrow> bool" where
  "sameLayout s t =
     (map key (properties s) = map key (properties t)
      \<and> keyOrder (content s) = keyOrder (content t))"

fun SerializeProperty :: "Property \<Rightarrow> string" where
  \<open>SerializeProperty (P_id v) = ''"id":'' @ QuoteJSONString v\<close>
| \<open>SerializeProperty (P_title v) = ''"title":'' @ QuoteJSONString v\<close>
| \<open>SerializeProperty (P_fileName v) = ''"fileName":'' @ QuoteJSONString v\<close>
| \<open>SerializeProperty (P_content c) = ''"content":'' @ SerializeContent c\<close>

definition SerializeObject :: "Property list \<Rightarrow> string" where
  "SerializeObject ps = ''{'' @ join (map SerializeProperty ps) '','' @ ''}''"

definition SerializeSource :: "Source \<Rightarrow> string" where
  "SerializeSource s = SerializeObject (properties s)"

definition JSON_stringify :: "Source list \<Rightarrow> string" where
  "JSON_stringify srcs = ''['' @ join (map SerializeSource srcs) '','' @ '']''"

section \<open>App.tsx\<close>

definition PUBLIC_GIST_ID :: string where
  "PUBLIC_GIST_ID = ''66334a5aafde2cd3ed37c02a8379189b''"

datatype AdminPanel = PanelSources | PanelSettings

text \<open>The state hooks of the component that the operations below read or write.\<close>

record App =
  isAdmin :: bool
  sources :: "Source list"
  draftSources :: "Source list"
  isFetchingSources :: bool
  sourcesEtag :: "string option"
  isLoading :: bool
  error :: "string option"
  adminConfig :: "AdminConfig option"
  toasts :: "ToastMessage list"
  adminMessages :: "ChatMessage list"
  guestMessages :: "ChatMessage list"
  adminActivePanel :: AdminPanel

text \<open>The state at mount; the credential and the admin log come from local storage.\<close>

definition initialApp :: "AdminConfig option \<Rightarrow> ChatMessage list \<Rightarrow> App" where
  "initialApp cfg stored =
     \<lparr> isAdmin = False, sources = [], draftSources = [], isFetchingSources = True,
       sourcesEtag = None, isLoading = False, error = None, adminConfig = cfg,
       toasts = [], adminMessages = stored, guestMessages = [],
       adminActivePanel = PanelSources \<rparr>"

text \<open>\<open>Date.now()\<close> is a parameter \<open>now\<close> of every operation that reads the clock.\<close>

definition addToast :: "string \<Rightarrow> ToastType \<Rightarrow> nat \<Rightarrow> App \<Rightarrow> App" where
  "addToast msg ty now a =
     a\<lparr>toasts := toasts a @ [\<lparr> id_Toast = now, message_Toast = msg, type_Toast = ty \<rparr>]\<rparr>"

subsection \<open>fetchInitialSources\<close>

definition initialDownloadMessage :: string where
  "initialDownloadMessage = ''Khong the tai xuong noi dung nguon ban dau.''"

definition loadFailedMessage :: string where
  "loadFailedMessage =
     ''Khong the tai cac nguon du lieu tu Gist da cau hinh. Ung dung se su dung du lieu mau mac dinh.''"

definition apiLimitMessage :: string where
  "apiLimitMessage = ''Da dat den gioi han truy cap API GitHub. Vui long thu lai sau.''"

text \<open>The description the \<open>catch\<close> block of \<open>fetchInitialSources\<close> chooses.\<close>

definition initialErrorMessage :: "exn \<Rightarrow> string" where
  "initialErrorMessage err =
     (case err of
        GistNotFoundError m \<Rightarrow> gistNotFoundMessage PUBLIC_GIST_ID
      | Error m \<Rightarrow> if includes_str m ''API'' then apiLimitMessage else loadFailedMessage)"

definition fetchInitialSources :: "App \<times> World \<Rightarrow> App \<times> World" where
  "fetchInitialSources aw =
     (let (a, w) = aw;
          a1 = a\<lparr>isFetchingSources := True, error := None\<rparr>;
          (r, w') = getSources PUBLIC_GIST_ID None w;
          outcome = (case r of
                       Inl err \<Rightarrow> Inl err
                     | Inr res \<Rightarrow>
                         (case sources_res res of
                            None \<Rightarrow> Inl (Error initialDownloadMessage)
                          | Some fetchedSources \<Rightarrow>
                              if status_res res = 200 then Inr (fetchedSources, etag_res res)
                              else Inl (Error initialDownloadMessage)));
          a2 = (case outcome of
                  Inr (fetchedSources, newEtag) \<Rightarrow>
                    a1\<lparr>sources := fetchedSources, draftSources := fetchedSources,
                       sourcesEtag := newEtag\<rparr>
                | Inl err \<Rightarrow>
                    a1\<lparr>error := Some (initialErrorMessage err), sources := DEFAULT_SOURCES,
                       draftSources := DEFAULT_SOURCES\<rparr>)
      in (a2\<lparr>isFetchingSources := False\<rparr>, w'))"

subsection \<open>hasUnsavedChanges and the polling callback\<close>

definition hasUnsavedChanges :: "App \<Rightarrow> bool" where
  "hasUnsavedChanges a = (JSON_stringify (sources a) \<noteq> JSON_stringify (draftSources a))"

definition updatedByOtherAdminMessage :: string where
  "updatedByOtherAdminMessage = ''Nguon du lieu da duoc cap nhat boi mot quan tri vien khac.''"

definition updatedChatResetMessage :: string where
  "updatedChatResetMessage =
     ''Nguon du lieu da duoc cap nhat. Cuoc tro chuyen cua ban da duoc lam moi.''"

text \<open>One run of the interval callback, at time \<open>now\<close>.\<close>

definition pollTick :: "nat \<Rightarrow> App \<times> World \<Rightarrow> App \<times> World" where
  "pollTick now aw =
     (let (a, w) = aw in
      if hasUnsavedChanges a \<or> \<not> truthy (sourcesEtag a) then (a, w)
      else
        (let (r, w') = getSources PUBLIC_GIST_ID (sourcesEtag a) w in
         case r of
           Inl err \<Rightarrow> (a, w')
         | Inr res \<Rightarrow>
             (case sources_res res of
                None \<Rightarrow> (a, w')
              | Some newSources \<Rightarrow>
                  if status_res res = 200 then
                    (let a1 = a\<lparr>sources := newSources, sourcesEtag := etag_res res\<rparr> in
                     if isAdmin a then
                       (addToast updatedByOtherAdminMessage ToastInfo now
                          (a1\<lparr>draftSources := newSources\<rparr>), w')
                     else
                       (addToast updatedChatResetMessage ToastInfo now
                          (a1\<lparr>guestMessages := []\<rparr>), w'))
                  else (a, w'))))"

subsection \<open>handleSaveChanges\<close>

definition configMissingMessage :: string where
  "configMissingMessage =
     ''Loi: Khong tim thay cau hinh luu tru. Vui long dinh cau hinh GitHub Token trong tab Cau hinh.''"

definition savedMessage :: string where
  "savedMessage = ''Cac thay doi da duoc luu va cong khai cho tat ca nguoi dung.''"

definition saveErrorMessage :: "exn \<Rightarrow> string" where
  "saveErrorMessage err = ''Da xay ra loi khi luu thay doi: '' @ message err"

text \<open>The guard \<open>!adminConfig || !adminConfig.githubToken\<close>.\<close>

fun noCredential :: "AdminConfig option \<Rightarrow> bool" where
  "noCredential None = True"
| "noCredential (Some cfg) = (githubToken cfg = [])"

definition handleSaveChanges :: "nat \<Rightarrow> App \<times> World \<Rightarrow> App \<times> World" where
  "handleSaveChanges now aw =
     (let (a, w) = aw in
      case adminConfig a of
        None \<Rightarrow> (addToast configMissingMessage ToastError now (a\<lparr>adminActivePanel := PanelSettings\<rparr>), w)
      | Some cfg \<Rightarrow>
          if githubToken cfg = [] then
            (addToast configMissingMessage ToastError now (a\<lparr>adminActivePanel := PanelSettings\<rparr>), w)
          else
            (let (r, w') = saveSources (draftSources a) PUBLIC_GIST_ID (githubToken cfg) w in
             case r of
               Inr newEtag \<Rightarrow>
                 (addToast savedMessage ToastSuccess now
                    (a\<lparr>sources := draftSources a, sourcesEtag := newEtag\<rparr>), w')
             | Inl err \<Rightarrow> (addToast (saveErrorMessage err) ToastError now a, w')))"

subsection \<open>addSource and deleteSource\<close>

text \<open>The object literal of \<open>addSource\<close> creates the keys in the order \<open>id\<close>,
  \<open>title\<close>, \<open>content\<close>, \<open>fileName\<close>; the last one also when no file name
  is given.\<close>

definition newSourceId :: "nat \<Rightarrow> string" where
  "newSourceId now = ''source-'' @ showNat now"

definition addSource :: "nat \<Rightarrow> string \<Rightarrow> Content \<Rightarrow> string option \<Rightarrow> App \<Rightarrow> App" where
  "addSource now ttl cnt fname a =
     (if \<not> isAdmin a then a
      else a\<lparr>draftSources := draftSources a
               @ [\<lparr> id_Source = newSourceId now, title = ttl, fileName = fname, content = cnt,
                     members = [M_id, M_title, M_content, M_fileName] \<rparr>]\<rparr>)"

definition deleteSource :: "string \<Rightarrow> App \<Rightarrow> App" where
  "deleteSource i a =
     (if \<not> isAdmin a then a
      else a\<lparr>draftSources := filter (\<lambda>source. id_Source source \<noteq> i) (draftSources a)\<rparr>)"

subsection \<open>sendMessage\<close>

definition noSourcesMessage :: string where
  "noSourcesMessage = ''Khong co nguon nao duoc tai len. Vui long lien he quan tri vien.''"

definition unknownSourceTitle :: string where
  "unknownSourceTitle = ''Nguon khong xac dinh''"

definition unknownErrorMessage :: string where
  "unknownErrorMessage = ''Da xay ra loi khong xac dinh.''"

text \<open>The active conversation log and its setter.\<close>

definition messages :: "App \<Rightarrow> ChatMessage list" where
  "messages a = (if isAdmin a then adminMessages a else guestMessages a)"

definition appendMessage :: "bool \<Rightarrow> ChatMessage \<Rightarrow> App \<Rightarrow> App" where
  "appendMessage admin m a =
     (if admin then a\<lparr>adminMessages := adminMessages a @ [m]\<rparr>
      else a\<lparr>guestMessages := guestMessages a @ [m]\<rparr>)"

text \<open>\<open>source?.title || fallback\<close> for one raw citation.\<close>

definition resolveCitation :: "Source list \<Rightarrow> RawCitation \<Rightarrow> Citation" where
  "resolveCitation srcs cit =
     (let source = find (\<lambda>s. id_Source s = sourceId_raw cit) srcs in
      \<lparr> sourceId = sourceId_raw cit,
        sourceTitle = (case source of
                         None \<Rightarrow> unknownSourceTitle
                       | Some s \<Rightarrow> if title s = [] then unknownSourceTitle else title s),
        quote = quote_raw cit \<rparr>)"

text \<open>
  The answering service is outside the repository: \<open>querySources\<close> is a parameter that
  either throws or returns the answer and its raw citations. \<open>now\<close> is the clock when
  the question is sent, \<open>now'\<close> the clock when the answer has arrived.
\<close>

definition sendMessage ::
  "(string \<Rightarrow> Source list \<Rightarrow> exn + string \<times> RawCitation list) \<Rightarrow> nat \<Rightarrow> nat \<Rightarrow> string \<Rightarrow> App \<Rightarrow> App" where
  "sendMessage querySources now now' question a =
     (let a1 = a\<lparr>error := None\<rparr>;
          userMessage = \<lparr> id_ChatMessage = ''msg-'' @ showNat now, role = User,
                          text_ChatMessage = question, citations = None \<rparr>;
          a2 = appendMessage (isAdmin a) userMessage a1;
          a3 = a2\<lparr>isLoading := True\<rparr>;
          outcome =
            (if length (sources a) = 0 then Inl (Error noSourcesMessage)
             else
               (case querySources question (sources a) of
                  Inl err \<Rightarrow> Inl err
                | Inr (answer, rawCitations) \<Rightarrow>
                    Inr \<lparr> id_ChatMessage = ''msg-'' @ showNat (now' + 1), role = Model,
                          text_ChatMessage = answer,
                          citations = Some (map (resolveCitation (sources a)) rawCitations) \<rparr>));
          a4 = (case outcome of
                  Inr modelMessage \<Rightarrow> appendMessage (isAdmin a) modelMessage a3
                | Inl err \<Rightarrow>
                    a3\<lparr>error := Some (if message err = [] then unknownErrorMessage
                                       else message err)\<rparr>)
      in a4\<lparr>isLoading := False\<rparr>)"

section \<open>Example values\<close>

text \<open>Small concrete sources, responses, worlds and states, on which the properties
  below are run.\<close>

definition exampleContent :: Content where
  "exampleContent = \<lparr> mimeType = ''text/plain'', data = ''d'', keyOrder = MimeTypeFirst \<rparr>"

definition exampleSource :: "string \<Rightarrow> string \<Rightarrow> Source" where
  "exampleSource i t =
     \<lparr> id_Source = i, title = t, fileName = None, content = exampleContent,
       members = [M_id, M_title, M_content] \<rparr>"

text \<open>A source as a stored document lists it, with the file name before the content.\<close>

definition storedSource :: "string \<Rightarrow> string \<Rightarrow> string \<Rightarrow> Source" where
  "storedSource i t f =
     \<lparr> id_Source = i, title = t, fileName = Some f, content = exampleContent,
       members = [M_id, M_title, M_fileName, M_content] \<rparr>"

text \<open>A parser that knows three texts: the empty array, the value \<open>null\<close>, and
  the serialisation of one example collection.\<close>

definition exampleParse :: "string \<Rightarrow> ParseResult" where
  "exampleParse t =
     (if t = ''[]'' then Parsed (JsonArray [])
      else if t = ''null'' then Parsed JsonNull
      else if t = JSON_stringify [exampleSource ''b'' ''B'']
        then Parsed (JsonArray [exampleSource ''b'' ''B''])
      else SyntaxError ''Unexpected token'')"

definition gistWith :: "string \<Rightarrow> ResponseJson" where
  "gistWith t = JsonData (Some [(FILENAME, \<lparr> content_GistFile = Some t \<rparr>)])"

definition exampleResponse :: "nat \<Rightarrow> ResponseJson \<Rightarrow> Response" where
  "exampleResponse st b =
     \<lparr> status = st, etagHeader = Some ''e1'', json = b, errorMessage = None \<rparr>"

definition respondWith :: "Response \<Rightarrow> World" where
  "respondWith r =
     \<lparr> respond = (\<lambda>rq. FetchResponds r), JSON_parse = exampleParse, sent = [] \<rparr>"

definition exampleApp :: "bool \<Rightarrow> Source list \<Rightarrow> Source list \<Rightarrow> string option \<Rightarrow> App" where
  "exampleApp admin pub draft tag =
     (initialApp None [])\<lparr>isAdmin := admin, sources := pub, draftSources := draft,
        isFetchingSources := False, sourcesEtag := tag\<rparr>"

definition exampleService :: "string \<Rightarrow> Source list \<Rightarrow> exn + string \<times> RawCitation list" where
  "exampleService q srcs = Inr (''answer'', [\<lparr> sourceId_raw = ''gone'', quote_raw = ''q'' \<rparr>])"

section \<open>The remote store client\<close>

lemma PUBLIC_GIST_ID_nonempty: "PUBLIC_GIST_ID \<noteq> []"
  by (simp add: PUBLIC_GIST_ID_def)

lemma getSources_try_404:
  "status r = 404 \<Longrightarrow>
     getSources_try parse gistId etag (FetchResponds r) = Inl (GistNotFoundError (gistNotFoundMessage gistId))"
  by (simp add: getSources_try_def ok_def)

text \<open>
  C6. When the store answers the GET for a non-empty document ID with status 404,
  \<open>getSources\<close> throws \<open>GistNotFoundError\<close>; for the empty document ID it returns the
  built-in default collection with status 200 and no revision tag, whatever tag was
  passed and whatever the store would answer, and issues no request.
\<close>

theorem getSources_not_found_or_default:
  assumes "gistId \<noteq> []"
    and "respond w (getRequest gistId etag) = FetchResponds r"
    and "status r = 404"
  shows "fst (getSources gistId etag w) = Inl (GistNotFoundError (gistNotFoundMessage gistId))
       \<and> getSources [] etag' w' =
           (Inr \<lparr> status_res = 200, sources_res = Some DEFAULT_SOURCES, etag_res = None \<rparr>, w')"
  using assms by (simp add: getSources_def fetch_def getSources_try_404 getSources_catch_def)

text \<open>C6 on a store that answers 404: the ID \<open>abc\<close> is not found, the empty ID yields
  the defaults.\<close>

theorem getSources_not_found_or_default_witness:
  "fst (getSources ''abc'' None (respondWith (exampleResponse 404 (JsonThrows []))))
     = Inl (GistNotFoundError (gistNotFoundMessage ''abc''))
   \<and> getSources [] (Some ''e0'') (respondWith (exampleResponse 404 (JsonThrows []))) =
       (Inr \<lparr> status_res = 200, sources_res = Some DEFAULT_SOURCES, etag_res = None \<rparr>,
        respondWith (exampleResponse 404 (JsonThrows [])))"
  using getSources_not_found_or_default [of "''abc''" "respondWith (exampleResponse 404 (JsonThrows []))"
      None "exampleResponse 404 (JsonThrows [])" "Some ''e0''"
      "respondWith (exampleResponse 404 (JsonThrows []))"]
  by (simp add: respondWith_def exampleResponse_def)



text \<open>The three fallbacks, one by one, on example responses: no file, the value
  \<open>null\<close>, the empty sequence.\<close>

lemma getSources_fallback_examples:
  "fst (getSources ''abc'' None (respondWith (exampleResponse 200 (JsonData (Some [])))))
     = Inr (defaultResult (Some ''e1''))
   \<and> fst (getSources ''abc'' None (respondWith (exampleResponse 200 (gistWith ''null''))))
     = Inr (defaultResult (Some ''e1''))
   \<and> fst (getSources ''abc'' None (respondWith (exampleResponse 200 (gistWith ''[]''))))
     = Inr (defaultResult (Some ''e1''))"
  by (simp add: getSources_def fetch_def getSources_try_def ok_def respondWith_def
        exampleResponse_def gistWith_def exampleParse_def defaultResult_def)

text \<open>A file content that \<open>JSON.parse\<close> rejects is outside the three cases: the
  \<open>SyntaxError\<close> reaches the \<open>catch\<close> block, and \<open>getSources\<close> throws (the network
  error, unless the message of the \<open>SyntaxError\<close> happens to contain the letters the
  block looks for).\<close>

lemma getSources_unparsable:
  assumes "gistId \<noteq> []"
    and "respond w (getRequest gistId etag) = FetchResponds r"
    and "ok r"
    and "json r = JsonData (Some fs)" and "map_of fs FILENAME = Some file"
    and "JSON_parse w (fileText file) = SyntaxError m"
  shows "fst (getSources gistId etag w) = Inl (getSources_catch (Error m))"
proof -
  from \<open>ok r\<close> have "status r \<noteq> 304" by (simp add: ok_def)
  with assms show ?thesis
    by (simp add: getSources_def fetch_def getSources_try_def)
qed

text \<open>A successful response with a non-empty sequence is returned as it is, and the one
  request is recorded.\<close>

lemma getSources_new_collection:
  assumes "respond w (getRequest PUBLIC_GIST_ID etag) = FetchResponds r"
    and "ok r" and "json r = JsonData (Some files)" and "map_of files FILENAME = Some file"
    and "JSON_parse w (fileText file) = Parsed (JsonArray newSources)" and "newSources \<noteq> []"
  shows "getSources PUBLIC_GIST_ID etag w =
           (Inr \<lparr> status_res = 200, sources_res = Some newSources, etag_res = etagHeader r \<rparr>,
            w\<lparr>sent := sent w @ [getRequest PUBLIC_GIST_ID etag]\<rparr>)"
proof -
  from \<open>ok r\<close> have "status r \<noteq> 304" by (simp add: ok_def)
  with assms show ?thesis
    by (simp add: getSources_def fetch_def getSources_try_def PUBLIC_GIST_ID_nonempty)
qed

text \<open>Any other failure status is thrown as the API error that carries the status.\<close>

lemma includes_apiErrorMessage: "includes_str (apiErrorMessage st) ''API GitHub''"
  by (simp add: apiErrorMessage_def)

lemma includes_API_apiErrorMessage: "includes_str (apiErrorMessage st) ''API''"
  by (simp add: apiErrorMessage_def)

lemma getSources_other_status:
  assumes "respond w (getRequest PUBLIC_GIST_ID etag) = FetchResponds r"
    and "\<not> ok r" "status r \<noteq> 304" "status r \<noteq> 404" "status r \<noteq> 403"
  shows "getSources PUBLIC_GIST_ID etag w =
           (Inl (Error (apiErrorMessage (status r))),
            w\<lparr>sent := sent w @ [getRequest PUBLIC_GIST_ID etag]\<rparr>)"
  using assms
  by (simp add: getSources_def fetch_def getSources_try_def getSources_catch_def
        includes_apiErrorMessage PUBLIC_GIST_ID_nonempty)

section \<open>The serialisation and what it determines\<close>

lemma hexdigit_inj: "i < 16 \<Longrightarrow> j < 16 \<Longrightarrow> hexdigit i = hexdigit j \<Longrightarrow> i = j"
proof -
  assume a: "i < 16" "j < 16" "hexdigit i = hexdigit j"
  have d: "distinct ''0123456789abcdef''" by simp
  from a show ?thesis unfolding hexdigit_def
    using nth_eq_iff_index_eq[OF d, of i j] by simp
qed

text \<open>The nine shapes of an escaped character.\<close>

text \<open>The nine shapes of an escaped character.\<close>

lemma escapeChar_cases:
  "escapeChar c = [bs, CHR ''b''] \<and> c = CHR 0x08 \<or>
   escapeChar c = [bs, CHR ''t''] \<and> c = CHR 0x09 \<or>
   escapeChar c = [bs, CHR ''n''] \<and> c = CHR 0x0A \<or>
   escapeChar c = [bs, CHR ''f''] \<and> c = CHR 0x0C \<or>
   escapeChar c = [bs, CHR ''r''] \<and> c = CHR 0x0D \<or>
   escapeChar c = [bs, dq] \<and> c = dq \<or>
   escapeChar c = [bs, bs] \<and> c = bs \<or>
   (escapeChar c = [bs, CHR ''u'', CHR ''0'', CHR ''0'',
                    hexdigit (of_char c div 16), hexdigit (of_char c mod 16)]
      \<and> (of_char c :: nat) < 32) \<or>
   (escapeChar c = [c] \<and> c \<noteq> dq \<and> c \<noteq> bs)"
  unfolding escapeChar_def by simp

lemma of_char_small_inj:
  assumes "(of_char c :: nat) < 32" "(of_char d :: nat) < 32"
    "hexdigit (of_char c div 16) = hexdigit (of_char d div 16)"
    "hexdigit (of_char c mod 16) = hexdigit (of_char d mod 16)"
  shows "c = d"
proof -
  let ?m = "of_char c :: nat" and ?n = "of_char d :: nat"
  have "?m div 16 = ?n div 16" using assms by (intro hexdigit_inj) auto
  moreover have "?m mod 16 = ?n mod 16" using assms by (intro hexdigit_inj) auto
  ultimately have "?m = ?n" by (metis div_mult_mod_eq)
  then show ?thesis by simp
qed

text \<open>No escape is a prefix of another, and none begins with the quotation mark: a
  quoted string can be read back from the front of any text it starts.\<close>

text \<open>No escape is a prefix of another, and none begins with the quotation mark: a
  quoted string can be read back from the front of any text it starts.\<close>

lemma escapeChar_prefix_free:
  "escapeChar c @ r = escapeChar d @ r' \<Longrightarrow> c = d \<and> r = r'"
  using escapeChar_cases[of c] escapeChar_cases[of d]
  apply (elim disjE conjE)
  apply (simp_all add: dq_def bs_def)
  apply (blast intro: of_char_small_inj)
  done

lemma escapeChar_not_dq: "escapeChar c @ r \<noteq> dq # r'"
  using escapeChar_cases[of c] by (auto simp: dq_def bs_def)

lemma escaped_prefix_free:
  "concat (map escapeChar s) @ dq # r = concat (map escapeChar s') @ dq # r'
     \<Longrightarrow> s = s' \<and> r = r'"
proof (induction s arbitrary: s')
  case Nil
  then show ?case
  proof (cases s')
    case Nil
    with Nil.prems show ?thesis by simp
  next
    case (Cons d t)
    with Nil.prems have "escapeChar d @ (concat (map escapeChar t) @ dq # r') = dq # r"
      by simp
    then show ?thesis using escapeChar_not_dq by blast
  qed
next
  case (Cons c s)
  show ?case
  proof (cases s')
    case Nil
    with Cons.prems have "escapeChar c @ (concat (map escapeChar s) @ dq # r) = dq # r'"
      by simp
    then show ?thesis using escapeChar_not_dq by blast
  next
    case (Cons d t)
    with Cons.prems have
      "escapeChar c @ (concat (map escapeChar s) @ dq # r)
         = escapeChar d @ (concat (map escapeChar t) @ dq # r')"
      by simp
    then have "c = d"
      and "concat (map escapeChar s) @ dq # r = concat (map escapeChar t) @ dq # r'"
      using escapeChar_prefix_free by blast+
    with Cons.IH[of t] Cons show ?thesis by simp
  qed
qed

lemma QuoteJSONString_prefix_free:
  "QuoteJSONString s @ r = QuoteJSONString s' @ r' \<Longrightarrow> s = s' \<and> r = r'"
  unfolding QuoteJSONString_def using escaped_prefix_free[of s r s' r'] by simp


lemma SerializeContent_prefix_free:
  "SerializeContent c @ r = SerializeContent c' @ r' \<Longrightarrow> c = c' \<and> r = r'"
  unfolding SerializeContent_def
  by (auto dest!: QuoteJSONString_prefix_free split: KeyOrder.splits)

lemma SerializeProperty_prefix_free:
  "SerializeProperty p @ r = SerializeProperty q @ r' \<Longrightarrow> p = q \<and> r = r'"
  by (cases p; cases q)
     (auto dest!: QuoteJSONString_prefix_free SerializeContent_prefix_free)

lemma SerializeProperty_starts: "\<exists>t. SerializeProperty p = dq # t"
  by (cases p) (simp_all add: dq_def)

text \<open>What follows the first element of a joined sequence: the rest, or a comma and
  the remaining elements.\<close>

lemma join_Cons:
  "join (map f (x # xs)) '','' @ r =
     f x @ (case xs of [] \<Rightarrow> r | y # ys \<Rightarrow> '','' @ join (map f (y # ys)) '','' @ r)"
  by (cases xs) simp_all

text \<open>A sequence of self-delimiting elements, joined by commas and closed by a
  character that no element starts with, is self-delimiting too.\<close>

lemma join_prefix_free:
  assumes pf: "\<And>x y r r'. f x @ r = f y @ r' \<Longrightarrow> x = y \<and> r = r'"
    and start: "\<And>x. \<exists>t. f x = c0 # t"
    and c0: "c0 \<noteq> cl" and cl: "cl \<noteq> CHR '',''"
  shows "join (map f xs) '','' @ cl # r = join (map f ys) '','' @ cl # r'
     \<Longrightarrow> xs = ys \<and> r = r'"
proof (induction xs arbitrary: ys)
  case Nil
  show ?case
  proof (cases ys)
    case Nil
    with Nil.prems show ?thesis by simp
  next
    case (Cons y ys')
    obtain t where "f y = c0 # t" using start by blast
    with Nil Cons c0 show ?thesis using join_Cons[of f y ys' "cl # r'"] by simp
  qed
next
  case (Cons x xs)
  show ?case
  proof (cases ys)
    case Nil
    obtain t where "f x = c0 # t" using start by blast
    with Cons.prems Nil c0 show ?thesis using join_Cons[of f x xs "cl # r"] by simp
  next
    case (Cons y ys')
    let ?tx = "case xs of [] \<Rightarrow> cl # r
               | a # as \<Rightarrow> '','' @ join (map f (a # as)) '','' @ cl # r"
    let ?ty = "case ys' of [] \<Rightarrow> cl # r'
               | a # as \<Rightarrow> '','' @ join (map f (a # as)) '','' @ cl # r'"
    from Cons.prems Cons have "f x @ ?tx = f y @ ?ty"
      using join_Cons[of f x xs "cl # r"] join_Cons[of f y ys' "cl # r'"] by simp
    then have xy: "x = y" and t: "?tx = ?ty" using pf by blast+
    from t cl have "join (map f xs) '','' @ cl # r = join (map f ys') '','' @ cl # r'"
      by (cases xs; cases ys') simp_all
    then have "xs = ys' \<and> r = r'" by (rule Cons.IH)
    with xy Cons show ?thesis by simp
  qed
qed

lemma SerializeObject_prefix_free:
  "SerializeObject ps @ r = SerializeObject qs @ r' \<Longrightarrow> ps = qs \<and> r = r'"
proof -
  assume "SerializeObject ps @ r = SerializeObject qs @ r'"
  then have "join (map SerializeProperty ps) '','' @ CHR ''}'' # r
               = join (map SerializeProperty qs) '','' @ CHR ''}'' # r'"
    by (simp add: SerializeObject_def)
  then show ?thesis
    using join_prefix_free [of SerializeProperty dq "CHR ''}''" ps r qs r']
      SerializeProperty_prefix_free SerializeProperty_starts
    by (simp add: dq_def)
qed

lemma SerializeObject_starts: "\<exists>t. SerializeObject ps = CHR ''{'' # t"
  by (simp add: SerializeObject_def)

text \<open>The serialisation of a collection determines, and is determined by, the
  members its sources write, source by source.\<close>

lemma JSON_stringify_objects:
  "JSON_stringify xs = ''['' @ join (map SerializeObject (map properties xs)) '','' @ '']''"
proof -
  have "SerializeSource = (\<lambda>s. SerializeObject (properties s))"
    by (rule ext) (simp add: SerializeSource_def)
  then show ?thesis by (simp add: JSON_stringify_def comp_def)
qed

lemma JSON_stringify_inj:
  "JSON_stringify xs = JSON_stringify ys \<longleftrightarrow> map properties xs = map properties ys"
proof
  assume "JSON_stringify xs = JSON_stringify ys"
  then have "join (map SerializeObject (map properties xs)) '','' @ CHR '']'' # []
               = join (map SerializeObject (map properties ys)) '','' @ CHR '']'' # []"
    by (simp add: JSON_stringify_objects)
  then have "map properties xs = map properties ys \<and> [] = ([]::string)"
    using join_prefix_free [of SerializeObject "CHR ''{''" "CHR '']''"
        "map properties xs" "[]" "map properties ys" "[]"]
      SerializeObject_prefix_free SerializeObject_starts
    by simp
  then show "map properties xs = map properties ys" by simp
next
  assume "map properties xs = map properties ys"
  then show "JSON_stringify xs = JSON_stringify ys" by (simp only: JSON_stringify_objects)
qed

text \<open>The serialisation of a collection of two sources with different keys.\<close>

lemma JSON_stringify_example:
  \<open>JSON_stringify [exampleSource ''a'' ''A'', storedSource ''b'' ''B'' ''b.txt''] =
     ''[{"id":"a","title":"A","content":{"mimeType":"text/plain","data":"d"}},{"id":"b","title":"B","fileName":"b.txt","content":{"mimeType":"text/plain","data":"d"}}]''\<close>
  by (simp add: JSON_stringify_def SerializeSource_def SerializeObject_def properties_def
        SerializeContent_def QuoteJSONString_def
        escapeChar_def exampleSource_def storedSource_def exampleContent_def dq_def bs_def)

lemma QuoteJSONString_example:
  "QuoteJSONString [CHR ''a'', CHR 0x22, CHR 0x0A, CHR 0x1F]
     = [CHR 0x22, CHR ''a'', CHR 0x5C, CHR 0x22, CHR 0x5C, CHR ''n'',
        CHR 0x5C, CHR ''u'', CHR ''0'', CHR ''0'', CHR ''1'', CHR ''f'', CHR 0x22]"
  by (simp add: QuoteJSONString_def escapeChar_def dq_def bs_def hexdigit_def)

subsection \<open>Written members and structure\<close>

lemma in_map_filter:
  "p \<in> set (List.map_filter g ms) \<longleftrightarrow> (\<exists>m \<in> set ms. g m = Some p)"
  by (induction ms) (auto split: option.splits)

lemma in_properties:
  "p \<in> set (properties s) \<longleftrightarrow> (\<exists>m \<in> set (members s). property s m = Some p)"
  by (simp add: properties_def in_map_filter)

lemma property_P_id: "property s m = Some (P_id v) \<longleftrightarrow> m = M_id \<and> v = id_Source s"
  by (cases m) (auto split: option.splits)

lemma property_P_title: "property s m = Some (P_title v) \<longleftrightarrow> m = M_title \<and> v = title s"
  by (cases m) (auto split: option.splits)

lemma property_P_content: "property s m = Some (P_content c) \<longleftrightarrow> m = M_content \<and> c = content s"
  by (cases m) (auto split: option.splits)

lemma property_P_fileName:
  "property s m = Some (P_fileName f) \<longleftrightarrow> m = M_fileName \<and> fileName s = Some f"
  by (cases m) (auto split: option.splits)

lemma key_property: "property s m = Some p \<Longrightarrow> key p = m"
  by (cases m) (auto split: option.splits)

text \<open>The written members are determined by their keys and the values of the source.\<close>

lemma map_filter_by_key:
  "map (\<lambda>m. the (property s m)) (map key (List.map_filter (property s) ms))
     = List.map_filter (property s) ms"
proof (induction ms)
  case Nil
  show ?case by simp
next
  case (Cons m ms)
  show ?case
  proof (cases "property s m")
    case None
    with Cons show ?thesis by simp
  next
    case (Some p)
    then have "key p = m" by (rule key_property)
    with Some Cons show ?thesis by simp
  qed
qed

lemma properties_by_key:
  "properties s = map (\<lambda>m. the (property s m)) (map key (properties s))"
  unfolding properties_def by (rule map_filter_by_key [symmetric])

lemma property_cong:
  "structurallyEqual s t \<Longrightarrow> keyOrder (content s) = keyOrder (content t) \<Longrightarrow>
     property s m = property t m"
  by (cases m) (auto simp add: structurallyEqual_def intro: Content.equality)

lemma properties_eqI:
  assumes "structurallyEqual s t" and "sameLayout s t"
  shows "properties s = properties t"
proof -
  from assms have "\<And>m. property s m = property t m"
    by (auto simp add: sameLayout_def intro: property_cong)
  moreover from assms have "map key (properties s) = map key (properties t)"
    by (simp add: sameLayout_def)
  ultimately show ?thesis
    using properties_by_key[of s] properties_by_key[of t] by simp
qed

lemma fileName_in_properties:
  assumes "wellFormed s" and "fileName s = Some f"
  shows "P_fileName f \<in> set (properties s)"
  using assms by (auto simp add: in_properties wellFormed_def property_P_fileName)

lemma properties_eqD:
  assumes wf: "wellFormed s" "wellFormed t" and eq: "properties s = properties t"
  shows "structurallyEqual s t \<and> sameLayout s t"
proof -
  from wf(1) have "P_id (id_Source s) \<in> set (properties s)"
    and "P_title (title s) \<in> set (properties s)"
    and "P_content (content s) \<in> set (properties s)"
    by (auto simp add: in_properties wellFormed_def property_P_id property_P_title
          property_P_content)
  with eq have fields: "id_Source s = id_Source t" "title s = title t" "content s = content t"
    by (auto simp add: in_properties property_P_id property_P_title property_P_content)
  have "fileName s = fileName t"
  proof (cases "fileName s")
    case None
    show ?thesis
    proof (cases "fileName t")
      case None
      with \<open>fileName s = None\<close> show ?thesis by simp
    next
      case (Some g)
      with wf(2) have "P_fileName g \<in> set (properties t)" by (rule fileName_in_properties)
      with eq have "P_fileName g \<in> set (properties s)" by simp
      then have "fileName s = Some g"
        by (auto simp add: in_properties property_P_fileName)
      with None show ?thesis by simp
    qed
  next
    case (Some f)
    with wf(1) have "P_fileName f \<in> set (properties s)" by (rule fileName_in_properties)
    with eq have "P_fileName f \<in> set (properties t)" by simp
    then have "fileName t = Some f"
      by (auto simp add: in_properties property_P_fileName)
    with Some show ?thesis by simp
  qed
  with fields eq show ?thesis
    by (simp add: structurallyEqual_def sameLayout_def)
qed

text \<open>Well-formed sources write the same members exactly when they are structurally
  equal and have the same layout.\<close>

lemma properties_eq_iff:
  "wellFormed s \<Longrightarrow> wellFormed t \<Longrightarrow>
     properties s = properties t \<longleftrightarrow> structurallyEqual s t \<and> sameLayout s t"
  using properties_eqD properties_eqI by blast

lemma map_properties_eq_iff:
  assumes "list_all wellFormed xs" and "list_all wellFormed ys"
  shows "map properties xs = map properties ys
           \<longleftrightarrow> list_all2 (\<lambda>s t. structurallyEqual s t \<and> sameLayout s t) xs ys"
  using assms
proof (induction xs arbitrary: ys)
  case Nil
  then show ?case by auto
next
  case (Cons x xs)
  then show ?case by (cases ys) (auto simp add: properties_eq_iff)
qed

section \<open>The session state\<close>

text \<open>
  C4, as stated, fails: the comparison is one of serialisations, which follow the order
  of the keys. A published source as a stored document lists it (\<open>fileName\<close> before
  \<open>content\<close>) and a draft source with the same values as \<open>addSource\<close> builds it
  (\<open>content\<close> before \<open>fileName\<close>) are structurally equal, and the session is dirty.
\<close>

theorem hasUnsavedChanges_key_order_counterexample:
  "hasUnsavedChanges
     (addSource 5 ''T'' exampleContent (Some ''t.txt'')
        (exampleApp True [storedSource (newSourceId 5) ''T'' ''t.txt''] [] None))
   \<and> list_all2 structurallyEqual
       (sources (addSource 5 ''T'' exampleContent (Some ''t.txt'')
          (exampleApp True [storedSource (newSourceId 5) ''T'' ''t.txt''] [] None)))
       (draftSources (addSource 5 ''T'' exampleContent (Some ''t.txt'')
          (exampleApp True [storedSource (newSourceId 5) ''T'' ''t.txt''] [] None)))"
  by (simp add: hasUnsavedChanges_def JSON_stringify_inj properties_def addSource_def
        exampleApp_def initialApp_def storedSource_def structurallyEqual_def)

text \<open>
  C4, amended. For every pair of published and draft collections of well-formed
  sources, the session is dirty exactly when the two ordered collections differ under
  deep structural equality or two corresponding sources differ in the order of their
  keys; that is, exactly when the sequences of written members differ. In particular two
  collections of structurally equal sources with the same key order, in the same order,
  are never dirty, and two sources in swapped order are dirty whenever they differ.
\<close>

theorem hasUnsavedChanges_iff:
  assumes "list_all wellFormed (sources a)" and "list_all wellFormed (draftSources a)"
  shows "hasUnsavedChanges a =
           (\<not> list_all2 (\<lambda>s t. structurallyEqual s t \<and> sameLayout s t)
                 (sources a) (draftSources a))
       \<and> hasUnsavedChanges a = (map properties (sources a) \<noteq> map properties (draftSources a))
       \<and> hasUnsavedChanges (a\<lparr>sources := [x, y], draftSources := [y, x]\<rparr>)
           = (properties x \<noteq> properties y)"
  using map_properties_eq_iff [OF assms]
  by (auto simp add: hasUnsavedChanges_def JSON_stringify_inj)

text \<open>C4, amended, on a clean session of two sources and on their swap.\<close>

theorem hasUnsavedChanges_iff_witness:
  "list_all wellFormed [exampleSource ''a'' ''A'', storedSource ''b'' ''B'' ''b.txt'']
   \<and> \<not> hasUnsavedChanges
       (exampleApp True [exampleSource ''a'' ''A'', storedSource ''b'' ''B'' ''b.txt'']
          [exampleSource ''a'' ''A'', storedSource ''b'' ''B'' ''b.txt''] None)
   \<and> hasUnsavedChanges
       (exampleApp True [exampleSource ''a'' ''A'', storedSource ''b'' ''B'' ''b.txt'']
          [storedSource ''b'' ''B'' ''b.txt'', exampleSource ''a'' ''A''] None)"
  using hasUnsavedChanges_iff
    [where a = "exampleApp True [exampleSource ''a'' ''A'', storedSource ''b'' ''B'' ''b.txt'']
                  [exampleSource ''a'' ''A'', storedSource ''b'' ''B'' ''b.txt''] None"
       and x = "exampleSource ''a'' ''A''" and y = "storedSource ''b'' ''B'' ''b.txt''"]
  by (simp add: exampleApp_def initialApp_def wellFormed_def exampleSource_def storedSource_def
        properties_def structurallyEqual_def sameLayout_def)

text \<open>
  C2. A run of the polling callback on a session that is dirty, or that holds no
  revision tag, issues no request and changes nothing. A run on a clean session that
  holds a tag, answered successfully with a non-empty collection, replaces published and
  the revision tag, replaces draft when the role is admin, clears the guest log when the
  role is guest, and appends exactly one informational notification; nothing else of the
  state changes, and exactly one request is issued.
\<close>

theorem pollTick_skip_or_refresh:
  assumes "hasUnsavedChanges a \<or> \<not> truthy (sourcesEtag a)"
    and "\<not> hasUnsavedChanges b" and "truthy (sourcesEtag b)"
    and "respond w' (getRequest PUBLIC_GIST_ID (sourcesEtag b)) = FetchResponds r"
    and "ok r" and "json r = JsonData (Some files)" and "map_of files FILENAME = Some file"
    and "JSON_parse w' (fileText file) = Parsed (JsonArray newSources)"
    and "newSources \<noteq> []"
  shows "pollTick now (a, w) = (a, w)
       \<and> pollTick now' (b, w') =
           (b\<lparr>sources := newSources,
              sourcesEtag := etagHeader r,
              draftSources := (if isAdmin b then newSources else draftSources b),
              guestMessages := (if isAdmin b then guestMessages b else []),
              toasts := toasts b @
                [\<lparr> id_Toast = now',
                   message_Toast = (if isAdmin b then updatedByOtherAdminMessage
                                    else updatedChatResetMessage),
                   type_Toast = ToastInfo \<rparr>]\<rparr>,
            w'\<lparr>sent := sent w' @ [getRequest PUBLIC_GIST_ID (sourcesEtag b)]\<rparr>)"
proof
  from assms(1) show "pollTick now (a, w) = (a, w)"
    by (auto simp add: pollTick_def)
next
  from assms(2,3) getSources_new_collection [OF assms(4-9)]
  show "pollTick now' (b, w') =
           (b\<lparr>sources := newSources,
              sourcesEtag := etagHeader r,
              draftSources := (if isAdmin b then newSources else draftSources b),
              guestMessages := (if isAdmin b then guestMessages b else []),
              toasts := toasts b @
                [\<lparr> id_Toast = now',
                   message_Toast = (if isAdmin b then updatedByOtherAdminMessage
                                    else updatedChatResetMessage),
                   type_Toast = ToastInfo \<rparr>]\<rparr>,
            w'\<lparr>sent := sent w' @ [getRequest PUBLIC_GIST_ID (sourcesEtag b)]\<rparr>)"
    by (simp add: pollTick_def addToast_def)
qed

text \<open>C2 on a dirty admin session, which is left as it is, and on a clean guest session,
  which receives the new collection and one notification.\<close>

theorem pollTick_skip_or_refresh_witness:
  "pollTick 9 (exampleApp True [] [exampleSource ''a'' ''A''] (Some ''e0''),
               respondWith (exampleResponse 200 (gistWith (JSON_stringify [exampleSource ''b'' ''B'']))))
     = (exampleApp True [] [exampleSource ''a'' ''A''] (Some ''e0''),
        respondWith (exampleResponse 200 (gistWith (JSON_stringify [exampleSource ''b'' ''B'']))))
   \<and> sources (fst (pollTick 9
        (exampleApp False [exampleSource ''a'' ''A''] [exampleSource ''a'' ''A''] (Some ''e0''),
         respondWith (exampleResponse 200 (gistWith (JSON_stringify [exampleSource ''b'' ''B'']))))))
     = [exampleSource ''b'' ''B'']
   \<and> length (toasts (fst (pollTick 9
        (exampleApp False [exampleSource ''a'' ''A''] [exampleSource ''a'' ''A''] (Some ''e0''),
         respondWith (exampleResponse 200 (gistWith (JSON_stringify [exampleSource ''b'' ''B''])))))))
     = 1"
proof -
  have dirty: "hasUnsavedChanges (exampleApp True [] [exampleSource ''a'' ''A''] (Some ''e0''))"
    by (simp add: hasUnsavedChanges_def JSON_stringify_inj exampleApp_def initialApp_def)
  have parsed: "exampleParse (JSON_stringify [exampleSource ''b'' ''B''])
                  = Parsed (JsonArray [exampleSource ''b'' ''B''])"
    by (simp add: exampleParse_def JSON_stringify_def SerializeSource_def SerializeObject_def)
  show ?thesis
    using dirty parsed
      pollTick_skip_or_refresh [of "exampleApp True [] [exampleSource ''a'' ''A''] (Some ''e0'')"
        "exampleApp False [exampleSource ''a'' ''A''] [exampleSource ''a'' ''A''] (Some ''e0'')"
        "respondWith (exampleResponse 200 (gistWith (JSON_stringify [exampleSource ''b'' ''B''])))"
        "exampleResponse 200 (gistWith (JSON_stringify [exampleSource ''b'' ''B'']))"
        "[(FILENAME, \<lparr> content_GistFile = Some (JSON_stringify [exampleSource ''b'' ''B'']) \<rparr>)]"
        "\<lparr> content_GistFile = Some (JSON_stringify [exampleSource ''b'' ''B'']) \<rparr>"
        "[exampleSource ''b'' ''B'']" 9
        "respondWith (exampleResponse 200 (gistWith (JSON_stringify [exampleSource ''b'' ''B''])))" 9]
    by (simp add: exampleApp_def initialApp_def respondWith_def exampleResponse_def gistWith_def
          ok_def hasUnsavedChanges_def)
qed

subsection \<open>The initial load\<close>

text \<open>Whenever \<open>getSources\<close> throws, the initial load sets published and draft to the
  defaults, leaves the revision tag as it was, and records the description chosen from
  the exception.\<close>

lemma fetchInitialSources_failure:
  assumes "fst (getSources PUBLIC_GIST_ID None w) = Inl err"
  shows "sources (fst (fetchInitialSources (a, w))) = DEFAULT_SOURCES
       \<and> draftSources (fst (fetchInitialSources (a, w))) = DEFAULT_SOURCES
       \<and> sourcesEtag (fst (fetchInitialSources (a, w))) = sourcesEtag a
       \<and> error (fst (fetchInitialSources (a, w))) = Some (initialErrorMessage err)"
  using assms
  by (cases "getSources PUBLIC_GIST_ID None w") (simp add: fetchInitialSources_def)

text \<open>The three descriptions are pairwise different texts.\<close>

lemma initial_messages_distinct:
  "gistNotFoundMessage PUBLIC_GIST_ID \<noteq> apiLimitMessage
   \<and> gistNotFoundMessage PUBLIC_GIST_ID \<noteq> loadFailedMessage
   \<and> apiLimitMessage \<noteq> loadFailedMessage"
  by (simp add: gistNotFoundMessage_def apiLimitMessage_def loadFailedMessage_def)

text \<open>Every failure status other than 404 is described as the rate limit, because the
  API error that carries the status contains the letters the \<open>catch\<close> block looks for.\<close>

lemma fetchInitialSources_other_status:
  assumes "respond w (getRequest PUBLIC_GIST_ID None) = FetchResponds r"
    and "\<not> ok r" "status r \<noteq> 304" "status r \<noteq> 404" "status r \<noteq> 403"
  shows "error (fst (fetchInitialSources (a, w))) = Some apiLimitMessage"
  using getSources_other_status [OF assms]
  by (simp add: fetchInitialSources_def initialErrorMessage_def includes_API_apiErrorMessage)

text \<open>
  C3. The claim asks for descriptions that tell the rate limit from a generic remote
  failure. On a store that answers the initial GET with status 500, \<open>getSources\<close> throws
  the generic API error (with status 403 it throws the rate-limit error, a different
  one), but the initial load records the rate-limit description in both cases.
\<close>

theorem fetchInitialSources_server_error:
  "fst (getSources PUBLIC_GIST_ID None (respondWith (exampleResponse 500 (JsonThrows []))))
     = Inl (Error ''Loi API GitHub! status: 500'')
   \<and> fst (getSources PUBLIC_GIST_ID None (respondWith (exampleResponse 403 (JsonThrows []))))
     = Inl (Error rateLimitMessage)
   \<and> error (fst (fetchInitialSources
        (initialApp None [], respondWith (exampleResponse 500 (JsonThrows [])))))
     = Some apiLimitMessage
   \<and> error (fst (fetchInitialSources
        (initialApp None [], respondWith (exampleResponse 403 (JsonThrows [])))))
     = Some apiLimitMessage"
  by (simp add: fetchInitialSources_def getSources_def fetch_def getSources_try_def
        getSources_catch_def initialErrorMessage_def ok_def respondWith_def exampleResponse_def
        apiErrorMessage_def rateLimitMessage_def showNat.simps digit_def PUBLIC_GIST_ID_def)

subsection \<open>Editing the draft\<close>

lemma filter_absent_id:
  "i \<notin> id_Source ` set srcs \<Longrightarrow> filter (\<lambda>source. id_Source source \<noteq> i) srcs = srcs"
  by (induction srcs) auto

text \<open>
  C5, as stated, fails: the new ID is the clock reading, so a draft can already hold a
  source with it (here one added at the same reading), and deleting by that ID removes
  both sources.
\<close>

theorem add_then_delete_counterexample:
  "draftSources (deleteSource (newSourceId 5)
      (addSource 5 ''T'' exampleContent None
         (addSource 5 ''First'' exampleContent None
            (exampleApp True [] [] None))))
   \<noteq> draftSources (addSource 5 ''First'' exampleContent None
            (exampleApp True [] [] None))"
  by (simp add: deleteSource_def addSource_def exampleApp_def initialApp_def)

text \<open>
  C5, amended. For every admin session whose draft holds no source with the ID that
  \<open>addSource\<close> generates, \<open>addSource\<close> followed by \<open>deleteSource\<close> of that ID gives
  back the state it started from: the same draft entries in the same order.
\<close>

theorem add_then_delete_fresh:
  assumes "isAdmin a"
    and "newSourceId now \<notin> id_Source ` set (draftSources a)"
  shows "deleteSource (newSourceId now) (addSource now ttl cnt fname a) = a"
  using assms by (simp add: deleteSource_def addSource_def filter_absent_id)

text \<open>C5, amended, on an admin draft of one source.\<close>

theorem add_then_delete_fresh_witness:
  "deleteSource (newSourceId 5)
      (addSource 5 ''T'' exampleContent None
         (exampleApp True [] [exampleSource ''a'' ''A''] None))
   = exampleApp True [] [exampleSource ''a'' ''A''] None"
  using add_then_delete_fresh [of "exampleApp True [] [exampleSource ''a'' ''A''] None" 5
      "''T''" "exampleContent" None]
  by (simp add: exampleApp_def initialApp_def exampleSource_def newSourceId_def
        showNat.simps digit_def)

subsection \<open>Saving\<close>

text \<open>
  C8. With no stored credential (no configuration, or an empty token) a save only
  switches to the settings panel and appends the error notification about the missing
  configuration: no request is issued, published and draft stay as they are. The
  store client itself refuses an empty token with the configuration error, again
  without a request.
\<close>

theorem save_without_credential:
  assumes "noCredential (adminConfig a)"
  shows "handleSaveChanges now (a, w) =
           (a\<lparr>adminActivePanel := PanelSettings,
               toasts := toasts a @ [\<lparr> id_Toast = now, message_Toast = configMissingMessage,
                                       type_Toast = ToastError \<rparr>]\<rparr>, w)
       \<and> sources (fst (handleSaveChanges now (a, w))) = sources a
       \<and> draftSources (fst (handleSaveChanges now (a, w))) = draftSources a
       \<and> sent (snd (handleSaveChanges now (a, w))) = sent w
       \<and> saveSources srcs gistId [] w = (Inl (Error configRequiredMessage), w)"
  using assms
  by (cases "adminConfig a") (simp_all add: handleSaveChanges_def addToast_def saveSources_def)

text \<open>C8 on an admin session with an unsaved draft and no configuration.\<close>

theorem save_without_credential_witness:
  "noCredential (adminConfig (exampleApp True [] [exampleSource ''a'' ''A''] None))
   \<and> sent (snd (handleSaveChanges 7 (exampleApp True [] [exampleSource ''a'' ''A''] None,
                  respondWith (exampleResponse 200 (JsonData None))))) = []
   \<and> draftSources (fst (handleSaveChanges 7 (exampleApp True [] [exampleSource ''a'' ''A''] None,
                  respondWith (exampleResponse 200 (JsonData None))))) = [exampleSource ''a'' ''A'']"
  using save_without_credential [of "exampleApp True [] [exampleSource ''a'' ''A''] None" 7
      "respondWith (exampleResponse 200 (JsonData None))" "[]" "[]"]
  by (simp add: exampleApp_def initialApp_def respondWith_def)

section \<open>The query orchestrator\<close>

text \<open>An answered question: the user message, then the model message with the resolved
  citations, are appended to the log of the role, and no error is recorded.\<close>

lemma sendMessage_answered:
  assumes "sources a \<noteq> []" and "querySources question (sources a) = Inr (answer, rawCitations)"
  shows "sendMessage querySources now now' question a =
     appendMessage (isAdmin a)
        \<lparr> id_ChatMessage = ''msg-'' @ showNat (now' + 1), role = Model, text_ChatMessage = answer,
          citations = Some (map (resolveCitation (sources a)) rawCitations) \<rparr>
       (appendMessage (isAdmin a)
          \<lparr> id_ChatMessage = ''msg-'' @ showNat now, role = User, text_ChatMessage = question,
            citations = None \<rparr> (a\<lparr>error := None\<rparr>))\<lparr>isLoading := False\<rparr>"
  using assms by (simp add: sendMessage_def appendMessage_def)

lemma find_absent: "i \<notin> id_Source ` set srcs \<Longrightarrow> find (\<lambda>s. id_Source s = i) srcs = None"
  by (induction srcs) auto

text \<open>
  C1, as stated, fails: the user message is appended before the collection is tested,
  so a question asked on the empty collection does change the active log.
\<close>

theorem sendMessage_empty_sources_counterexample:
  "messages (sendMessage exampleService 1 2 ''x'' (exampleApp False [] [] None))
     \<noteq> messages (exampleApp False [] [] None)"
  by (simp add: sendMessage_def messages_def appendMessage_def exampleApp_def initialApp_def)

text \<open>
  C1, amended. For every question and the empty published collection, asking fails with
  the empty-sources error, recorded as the error description, without consulting the
  answering service; the user message, and no model message, is appended to the active
  conversation log.
\<close>

theorem sendMessage_empty_sources:
  assumes "sources a = []"
  shows "messages (sendMessage querySources now now' question a) =
           messages a @ [\<lparr> id_ChatMessage = ''msg-'' @ showNat now, role = User,
                           text_ChatMessage = question, citations = None \<rparr>]
       \<and> error (sendMessage querySources now now' question a) = Some noSourcesMessage
       \<and> sendMessage querySources now now' question a = sendMessage otherService now now' question a"
  using assms
  by (simp add: sendMessage_def messages_def appendMessage_def noSourcesMessage_def)

text \<open>C1, amended, on a guest session with no sources.\<close>

theorem sendMessage_empty_sources_witness:
  "length (messages (sendMessage exampleService 1 2 ''x'' (exampleApp False [] [] None))) = 1
   \<and> error (sendMessage exampleService 1 2 ''x'' (exampleApp False [] [] None)) = Some noSourcesMessage"
  using sendMessage_empty_sources [of "exampleApp False [] [] None" exampleService 1 2 "''x''" exampleService]
  by (simp add: exampleApp_def initialApp_def messages_def)

text \<open>
  C9. When the answer cites a source ID that no source of the published collection
  carries, that citation receives the fallback title, and the response succeeds: no
  error is recorded, and the user message and the model message with all resolved
  citations are appended to the active log.
\<close>

theorem absent_source_resolves_to_fallback:
  assumes "sources a \<noteq> []"
    and "querySources question (sources a) = Inr (answer, rawCitations)"
    and "cit \<in> set rawCitations"
    and "sourceId_raw cit \<notin> id_Source ` set (sources a)"
  shows "sourceTitle (resolveCitation (sources a) cit) = unknownSourceTitle
       \<and> error (sendMessage querySources now now' question a) = None
       \<and> messages (sendMessage querySources now now' question a) =
           messages a @
             [\<lparr> id_ChatMessage = ''msg-'' @ showNat now, role = User, text_ChatMessage = question,
                citations = None \<rparr>,
              \<lparr> id_ChatMessage = ''msg-'' @ showNat (now' + 1), role = Model,
                text_ChatMessage = answer,
                citations = Some (map (resolveCitation (sources a)) rawCitations) \<rparr>]"
  using assms
  by (simp add: sendMessage_answered resolveCitation_def find_absent messages_def appendMessage_def)

text \<open>C9 on a collection of one source and an answer that cites the ID \<open>gone\<close>.\<close>

theorem absent_source_resolves_to_fallback_witness:
  "map sourceTitle (the (citations (last (messages
       (sendMessage exampleService 1 2 ''x'' (exampleApp False [exampleSource ''a'' ''A''] [] None))))))
     = [unknownSourceTitle]
   \<and> error (sendMessage exampleService 1 2 ''x'' (exampleApp False [exampleSource ''a'' ''A''] [] None))
     = None"
  using absent_source_resolves_to_fallback [of "exampleApp False [exampleSource ''a'' ''A''] [] None"
      exampleService "''x''" "''answer''" "[\<lparr> sourceId_raw = ''gone'', quote_raw = ''q'' \<rparr>]"
      "\<lparr> sourceId_raw = ''gone'', quote_raw = ''q'' \<rparr>" 1 2]
  by (simp add: exampleApp_def initialApp_def exampleService_def exampleSource_def)

text \<open>
  C10, as stated, fails: the lookup takes the first source that carries the ID. When an
  earlier source with the same ID has a title, a later one with the empty title is
  present and matches, and the citation still receives the title of the earlier one.
\<close>

theorem empty_title_counterexample:
  "exampleSource ''b'' [] \<in> set [exampleSource ''b'' ''X'', exampleSource ''b'' []]
   \<and> sourceTitle (resolveCitation [exampleSource ''b'' ''X'', exampleSource ''b'' []]
         \<lparr> sourceId_raw = ''b'', quote_raw = ''q'' \<rparr>) = ''X''
   \<and> ''X'' \<noteq> unknownSourceTitle"
  by (simp add: resolveCitation_def exampleSource_def unknownSourceTitle_def)

text \<open>
  C10, amended. For every citation whose source ID is carried by a source of the
  published collection, the first such source decides: when its title is the empty
  string the citation receives the fallback title rather than the empty title, and when
  its title is not empty the citation receives that title. The fallback is keyed on the
  title being falsy, not only on the lookup failing.
\<close>

theorem empty_title_resolves_to_fallback:
  assumes "find (\<lambda>s. id_Source s = sourceId_raw cit) srcs = Some src"
    and "title src = []"
    and "find (\<lambda>s. id_Source s = sourceId_raw cit') srcs' = Some src'"
    and "title src' \<noteq> []"
  shows "sourceTitle (resolveCitation srcs cit) = unknownSourceTitle
       \<and> sourceTitle (resolveCitation srcs' cit') = title src'"
  using assms by (simp add: resolveCitation_def)

text \<open>C10, amended, on a collection whose second source has the empty title: a citation
  of it receives the fallback, a citation of the first source its title.\<close>

theorem empty_title_resolves_to_fallback_witness:
  "sourceTitle (resolveCitation [exampleSource ''a'' ''A'', exampleSource ''b'' []]
       \<lparr> sourceId_raw = ''b'', quote_raw = ''q'' \<rparr>) = unknownSourceTitle
   \<and> sourceTitle (resolveCitation [exampleSource ''a'' ''A'', exampleSource ''b'' []]
       \<lparr> sourceId_raw = ''a'', quote_raw = ''q'' \<rparr>) = ''A''"
  using empty_title_resolves_to_fallback [of "\<lparr> sourceId_raw = ''b'', quote_raw = ''q'' \<rparr>"
      "[exampleSource ''a'' ''A'', exampleSource ''b'' []]" "exampleSource ''b'' []"
      "\<lparr> sourceId_raw = ''a'', quote_raw = ''q'' \<rparr>"
      "[exampleSource ''a'' ''A'', exampleSource ''b'' []]" "exampleSource ''a'' ''A''"]
  by (simp add: exampleSource_def)

end
